theory Spec2Isabelle
  imports Complex_Main "HOL-Library.Sublist"
begin

section \<open>Pathfinder: parking recommendation and re-routing\<close>

text \<open>
  The development embeds the two Python modules of the repository,
  \<^verbatim>\<open>backend/realtime_parking_system.py\<close> (the socket server with the ledger of
  recommendations and the dispatcher) and \<^verbatim>\<open>backend/parking_finder_v2.py\<close> (the
  HTTP endpoint and the navigation loop with the throttle).

  Numbers: Python's \<^verbatim>\<open>float\<close> is modelled by \<^typ>\<open>real\<close>, that is, by exact
  arithmetic; rounding, overflow, infinities and NaN are outside the model. Python's
  \<^verbatim>\<open>int\<close> is \<^typ>\<open>int\<close>. Functions that exist in both modules under one name
  carry the suffix \<open>_v2\<close> for the second module when their bodies differ.
\<close>

subsection \<open>Data model\<close>

text \<open>
  One entry of \<^verbatim>\<open>parking_spots\<close>. Both modules use dictionaries with the keys
  below; the capacity is stored under \<^verbatim>\<open>"total_spots"\<close> in the realtime module and
  under \<^verbatim>\<open>"capacity"\<close> in the second module, and \<^verbatim>\<open>"hours"\<close> exists in the second
  module only.
\<close>

record garage =
  name :: string
  address :: string
  lat :: real
  lng :: real
  price_per_hour :: real
  gtype :: string
  total_spots :: int
  available_spots :: int
  payment_methods :: "string list"
  hours :: string

subsection \<open>Distance\<close>

text \<open>\<^verbatim>\<open>math.radians\<close>.\<close>

definition radians :: "real \<Rightarrow> real" where
  "radians x = x * (pi / 180)"

text \<open>\<^verbatim>\<open>math.atan2(y, x)\<close>: the angle of the point \<open>(x, y)\<close>, in \<open>(-\<pi>, \<pi>]\<close>.\<close>

definition atan2 :: "real \<Rightarrow> real \<Rightarrow> real" where
  "atan2 y x =
     (if 0 < x then arctan (y / x)
      else if x < 0 then (if 0 \<le> y then arctan (y / x) + pi else arctan (y / x) - pi)
      else if 0 < y then pi / 2
      else if y < 0 then - (pi / 2)
      else 0)"

text \<open>The quantity \<^verbatim>\<open>a\<close> of \<^verbatim>\<open>haversine\<close> (the same line in both modules).\<close>

definition hav_a :: "real \<Rightarrow> real \<Rightarrow> real \<Rightarrow> real \<Rightarrow> real" where
  "hav_a lat1 lon1 lat2 lon2 =
     (let phi1 = radians lat1; phi2 = radians lat2;
          dphi = radians (lat2 - lat1);
          dlambda = radians (lon2 - lon1)
      in (sin (dphi / 2))\<^sup>2 + cos phi1 * cos phi2 * (sin (dlambda / 2))\<^sup>2)"

text \<open>
  \<^verbatim>\<open>haversine(lat1, lon1, lat2, lon2)\<close>, identical in both modules, in exact
  arithmetic. \<^verbatim>\<open>math.sqrt\<close> raises \<^verbatim>\<open>ValueError\<close> on a negative argument; lemma
  \<open>hav_a_range\<close> below shows that in exact arithmetic both arguments are never negative,
  so the function is modelled without an error branch. In double precision the value
  differs from this one by rounding: \<^verbatim>\<open>a\<close> can round above 1 for nearly antipodal points,
  where the code raises, and a distance that is exactly zero here need not be exactly
  zero there, nor conversely. The properties below that depend on the exact value of a
  distance are properties of this model only.
\<close>

definition haversine :: "real \<Rightarrow> real \<Rightarrow> real \<Rightarrow> real \<Rightarrow> real" where
  "haversine lat1 lon1 lat2 lon2 =
     (let R = 6371000;
          a = hav_a lat1 lon1 lat2 lon2;
          c = 2 * atan2 (sqrt a) (sqrt (1 - a))
      in R * c)"

subsection \<open>Scoring\<close>

text \<open>
  \<^verbatim>\<open>score_parking(garage, user_lat, user_lng, dest_lat, dest_lng, price_weight=0.3)\<close>
  of the realtime module. The last argument is optional in the source: \<open>None\<close> is the
  call that leaves it out.
\<close>

definition score_parking ::
  "garage \<Rightarrow> real \<Rightarrow> real \<Rightarrow> real \<Rightarrow> real \<Rightarrow> real option \<Rightarrow> real \<times> real \<times> real" where
  "score_parking g user_lat user_lng dest_lat dest_lng price_weight_arg =
     (let price_weight = (case price_weight_arg of None \<Rightarrow> 0.3 | Some w \<Rightarrow> w);
          drive_distance = haversine user_lat user_lng (lat g) (lng g);
          walk_distance = haversine (lat g) (lng g) dest_lat dest_lng;
          total_distance = drive_distance + (walk_distance * 2);
          price = price_per_hour g;
          availability_factor = (if available_spots g > 20 then 1.0 else 1.5);
          score = ((1 - price_weight) * total_distance + price_weight * price * 100)
                    * availability_factor
      in (score, drive_distance, walk_distance))"

text \<open>
  \<^verbatim>\<open>score_parking(parking, dest_lat, dest_lng, alpha=0.5)\<close> of the second module: an
  earlier scoring, on the walking distance only, where \<^verbatim>\<open>alpha\<close> weighs the
  distance.
\<close>

definition score_parking_v2 :: "garage \<Rightarrow> real \<Rightarrow> real \<Rightarrow> real option \<Rightarrow> real" where
  "score_parking_v2 parking dest_lat dest_lng alpha_arg =
     (let alpha = (case alpha_arg of None \<Rightarrow> 0.5 | Some w \<Rightarrow> w);
          distance = haversine (lat parking) (lng parking) dest_lat dest_lng;
          price = price_per_hour parking;
          availability_factor = (if available_spots parking > 20 then 1.0 else 1.5)
      in (alpha * distance + (1 - alpha) * price * 100) * availability_factor)"

text \<open>
  The scoring as the specification words it (section 4.3): the position of the user, the
  destination and the optional preference of the trip.
\<close>

definition spec_score ::
  "garage \<Rightarrow> real \<times> real \<Rightarrow> real \<times> real \<Rightarrow> real option \<Rightarrow> real \<times> real \<times> real" where
  "spec_score location user destination preference =
     (let driveDistance = haversine (fst user) (snd user) (lat location) (lng location);
          walkDistance =
            haversine (lat location) (lng location) (fst destination) (snd destination);
          burden = driveDistance + 2 * walkDistance;
          availabilityPenalty = (if available_spots location \<le> 20 then 1.5 else 1.0);
          priceWeight = (case preference of None \<Rightarrow> 0.3 | Some w \<Rightarrow> w);
          score = ((1 - priceWeight) * burden + priceWeight * price_per_hour location * 100)
                    * availabilityPenalty
      in (score, driveDistance, walkDistance))"

subsection \<open>Outcomes of a call\<close>

text \<open>
  The exceptions of Python that the modelled code can raise.
\<close>

datatype pyerror = TypeError | ValueError | KeyError | IndexError

text \<open>
  A call returns a value, raises, or never returns: \<open>Blocks\<close> is the thread that
  waits for ever to acquire \<^verbatim>\<open>parking_lock\<close>, a \<^verbatim>\<open>threading.Lock\<close>, which is not
  re-entrant.
\<close>

datatype 'a outcome = Returns 'a | Blocks | Raises pyerror

subsection \<open>State of the realtime module\<close>

text \<open>
  One entry of \<^verbatim>\<open>users_db\<close>; the key \<^verbatim>\<open>"price_weight"\<close> is read with
  \<^verbatim>\<open>.get('price_weight', 0.3)\<close>, so it may be absent.
\<close>

record user =
  password_hash :: string
  user_price_weight :: "real option"

text \<open>
  One entry of \<^verbatim>\<open>user_recommendations\<close>, as \<^verbatim>\<open>handle_parking_request\<close> creates it;
  the fields carry the prefix \<open>r_\<close>.
\<close>

record recommendation =
  r_username :: "string option"
  r_garage_name :: string
  r_timestamp :: real
  r_user_lat :: real
  r_user_lng :: real
  r_dest_lat :: real
  r_dest_lng :: real
  r_duration :: real
  r_walk_distance :: real

text \<open>
  What is sent to a client. The human-readable strings (titles, the impact summary, the
  reasons of the alternatives, formatted distances) are left out; the numbers they are
  made from are kept.
  \<^item> \<open>Error_note message\<close>: type \<^verbatim>\<open>"error"\<close>;
  \<^item> \<open>Reroute_note old_garage_name reason new_garage estimated_cost drive walk\<close>: type
    \<^verbatim>\<open>"reroute"\<close>;
  \<^item> \<open>Warning_note garage spots_remaining\<close>: type \<^verbatim>\<open>"warning"\<close>;
  \<^item> \<open>Recommendation_note best estimated_cost drive walk alternatives\<close>: the event
    \<^verbatim>\<open>parking_recommendation\<close>, each alternative with its estimated cost and distances.
\<close>

datatype notification =
    Error_note string
  | Reroute_note string string garage real real real
  | Warning_note string int
  | Recommendation_note garage real real real "(garage \<times> real \<times> real \<times> real) list"

text \<open>
  The globals of the module. \<^verbatim>\<open>user_recommendations\<close> is a dictionary, kept as a list
  of pairs in insertion order with one pair per key; \<open>parking_lock\<close> tells whether the
  lock is held; \<open>emitted\<close> lists what was sent, with the room it was sent to, oldest
  first.
\<close>

record state =
  parking_spots :: "garage list"
  user_recommendations :: "(string \<times> recommendation) list"
  users_db :: "string \<rightharpoonup> user"
  parking_lock :: bool
  emitted :: "(string \<times> notification) list"

definition emit :: "state \<Rightarrow> string \<Rightarrow> notification \<Rightarrow> state" where
  "emit st room payload = st\<lparr>emitted := emitted st @ [(room, payload)]\<rparr>"

text \<open>
  \<^verbatim>\<open>d[k] = v\<close>: an existing key keeps its place, a new key goes last.
\<close>

fun dict_set :: "('k \<times> 'v) list \<Rightarrow> 'k \<Rightarrow> 'v \<Rightarrow> ('k \<times> 'v) list" where
  "dict_set [] k v = [(k, v)]"
| "dict_set ((k', v') # kvs) k v =
     (if k' = k then (k, v) # kvs else (k', v') # dict_set kvs k v)"

subsection \<open>Recommendation\<close>

text \<open>
  The weight of the price for a requester, the same three lines at the head of
  \<^verbatim>\<open>find_best_garage\<close> and \<^verbatim>\<open>find_top_garages\<close>: 0.3 unless a non-empty user name is
  in \<^verbatim>\<open>users_db\<close> with a stored weight.
\<close>

definition price_weight_for :: "(string \<rightharpoonup> user) \<Rightarrow> string option \<Rightarrow> real" where
  "price_weight_for db username =
     (case username of
        None \<Rightarrow> 0.3
      | Some u \<Rightarrow>
          if u \<noteq> [] then
            (case db u of
               None \<Rightarrow> 0.3
             | Some entry \<Rightarrow> (case user_price_weight entry of None \<Rightarrow> 0.3 | Some w \<Rightarrow> w))
          else 0.3)"

text \<open>
  \<^verbatim>\<open>xs[:n]\<close>; a negative \<open>n\<close> drops that many elements from the end.
\<close>

definition py_slice_to :: "'a list \<Rightarrow> int \<Rightarrow> 'a list" where
  "py_slice_to xs n = (if 0 \<le> n then take (nat n) xs else take (length xs - nat (- n)) xs)"

text \<open>
  The loop of \<^verbatim>\<open>find_best_garage\<close> over the available garages. The best score starts
  at infinity, here \<open>None\<close>; a garage replaces the best one only on a strictly smaller
  score.
\<close>

fun best_loop ::
  "garage list \<Rightarrow> real \<Rightarrow> real \<Rightarrow> real \<Rightarrow> real \<Rightarrow> real
     \<Rightarrow> real option \<times> garage option \<times> real \<times> real
     \<Rightarrow> real option \<times> garage option \<times> real \<times> real" where
  "best_loop [] user_lat user_lng dest_lat dest_lng price_weight acc = acc"
| "best_loop (g # gs) user_lat user_lng dest_lat dest_lng price_weight
       (best_score, best_garage, best_drive, best_walk) =
     (case score_parking g user_lat user_lng dest_lat dest_lng (Some price_weight) of
        (score, drive_dist, walk_dist) \<Rightarrow>
          if (case best_score of None \<Rightarrow> True | Some b \<Rightarrow> score < b)
          then best_loop gs user_lat user_lng dest_lat dest_lng price_weight
                 (Some score, Some g, drive_dist, walk_dist)
          else best_loop gs user_lat user_lng dest_lat dest_lng price_weight
                 (best_score, best_garage, best_drive, best_walk))"

definition find_best_garage ::
  "state \<Rightarrow> real \<Rightarrow> real \<Rightarrow> real \<Rightarrow> real \<Rightarrow> string option
     \<Rightarrow> (garage option \<times> real \<times> real) outcome" where
  "find_best_garage st user_lat user_lng dest_lat dest_lng username =
     (let price_weight = price_weight_for (users_db st) username
      in if parking_lock st then Blocks
         else
           (let available_garages = filter (\<lambda>g. available_spots g > 0) (parking_spots st)
            in if available_garages = [] then Returns (None, 0, 0)
               else
                 (case best_loop available_garages user_lat user_lng dest_lat dest_lng
                         price_weight (None, None, 0, 0) of
                    (best_score, best_garage, best_drive, best_walk) \<Rightarrow>
                      Returns (best_garage, best_drive, best_walk))))"

text \<open>
  The list \<^verbatim>\<open>scored\<close> of \<^verbatim>\<open>find_top_garages\<close> before it is sorted, in catalogue order.
\<close>

definition scored_garages ::
  "garage list \<Rightarrow> real \<Rightarrow> real \<Rightarrow> real \<Rightarrow> real \<Rightarrow> real
     \<Rightarrow> (real \<times> garage \<times> real \<times> real) list" where
  "scored_garages available_garages user_lat user_lng dest_lat dest_lng price_weight =
     map (\<lambda>g. case score_parking g user_lat user_lng dest_lat dest_lng (Some price_weight) of
                 (score, drive_dist, walk_dist) \<Rightarrow> (score, g, drive_dist, walk_dist))
         available_garages"

text \<open>
  \<^verbatim>\<open>list.sort(key=...)\<close> is stable and compares the keys only, as \<^const>\<open>sort_key\<close> does.
\<close>

definition find_top_garages ::
  "state \<Rightarrow> real \<Rightarrow> real \<Rightarrow> real \<Rightarrow> real \<Rightarrow> string option \<Rightarrow> int
     \<Rightarrow> (real \<times> garage \<times> real \<times> real) list outcome" where
  "find_top_garages st user_lat user_lng dest_lat dest_lng username n =
     (let price_weight = price_weight_for (users_db st) username
      in if parking_lock st then Blocks
         else
           (let available_garages = filter (\<lambda>g. available_spots g > 0) (parking_spots st)
            in if available_garages = [] then Returns []
               else
                 (let scored = scored_garages available_garages user_lat user_lng
                                 dest_lat dest_lng price_weight
                  in Returns (py_slice_to (sort_key fst scored) n))))"

text \<open>
  \<^verbatim>\<open>find_top_parking(dest_lat, dest_lng, n=3)\<close> of the second module, on the catalogue it reads.
\<close>

definition find_top_parking :: "garage list \<Rightarrow> real \<Rightarrow> real \<Rightarrow> int \<Rightarrow> (garage \<times> real) list" where
  "find_top_parking spots dest_lat dest_lng n =
     (let available = filter (\<lambda>p. available_spots p > 0) spots
      in if available = [] then []
         else
           (let scored = map (\<lambda>p. (score_parking_v2 p dest_lat dest_lng None, p)) available
            in map (\<lambda>(s, p). (p, s)) (py_slice_to (sort_key fst scored) n)))"

subsection \<open>Dispatcher of the realtime module\<close>

text \<open>
  \<^verbatim>\<open>round\<close> to the nearest integer, a tie going to the even neighbour.
\<close>

definition py_round :: "real \<Rightarrow> int" where
  "py_round x =
     (let f = \<lfloor>x\<rfloor>; d = x - of_int f
      in if d < 1 / 2 then f else if 1 / 2 < d then f + 1 else if even f then f else f + 1)"

text \<open>
  \<^verbatim>\<open>round(x, 2)\<close>.
\<close>

definition round2 :: "real \<Rightarrow> real" where
  "round2 x = of_int (py_round (x * 100)) / 100"

definition send_low_availability_warning :: "state \<Rightarrow> string \<Rightarrow> garage \<Rightarrow> state" where
  "send_low_availability_warning st session_id g =
     emit st session_id (Warning_note (name g) (available_spots g))"

text \<open>
  \<^verbatim>\<open>send_reroute_notification(session_id, old_rec, reason)\<close>; \<open>now\<close> is what
  \<^verbatim>\<open>time.time()\<close> returns. Nothing is sent when the old garage is not in the catalogue,
  and \<^verbatim>\<open>user_recommendations[session_id]\<close> raises \<^verbatim>\<open>KeyError\<close> when the session has
  gone.
\<close>

definition send_reroute_notification ::
  "state \<Rightarrow> string \<Rightarrow> recommendation \<Rightarrow> string \<Rightarrow> real \<Rightarrow> state outcome" where
  "send_reroute_notification st session_id old_rec reason now =
     (let user_lat = r_user_lat old_rec; user_lng = r_user_lng old_rec;
          dest_lat = r_dest_lat old_rec; dest_lng = r_dest_lng old_rec;
          duration = r_duration old_rec; username = r_username old_rec
      in case find_best_garage st user_lat user_lng dest_lat dest_lng username of
           Blocks \<Rightarrow> Blocks
         | Raises e \<Rightarrow> Raises e
         | Returns (new_garage_opt, new_drive, new_walk) \<Rightarrow>
             (case new_garage_opt of
                None \<Rightarrow>
                  Returns (emit st session_id
                    (Error_note ''All parking is currently full. Searching for alternatives...''))
              | Some new_garage \<Rightarrow>
                  (let old_garage_name = r_garage_name old_rec
                   in case find (\<lambda>g. name g = old_garage_name) (parking_spots st) of
                        None \<Rightarrow> Returns st
                      | Some old_garage \<Rightarrow>
                          (let st1 = emit st session_id
                                 (Reroute_note old_garage_name reason new_garage
                                    (round2 (price_per_hour new_garage * duration))
                                    new_drive new_walk)
                           in case map_of (user_recommendations st1) session_id of
                                None \<Rightarrow> Raises KeyError
                              | Some entry \<Rightarrow>
                                  Returns (st1\<lparr>user_recommendations :=
                                    dict_set (user_recommendations st1) session_id
                                      (entry\<lparr>r_garage_name := name new_garage,
                                             r_timestamp := now,
                                             r_walk_distance := new_walk\<rparr>)\<rparr>)))))"

text \<open>
  The loop of \<^verbatim>\<open>check_user_recommendations\<close> over a copy of the items of the ledger;
  each entry is visited once, and the state is threaded through the notifications.
\<close>

fun check_loop ::
  "(string \<times> recommendation) list \<Rightarrow> garage \<Rightarrow> int \<Rightarrow> real \<Rightarrow> state \<Rightarrow> state outcome" where
  "check_loop [] changed_garage old_available current_time st = Returns st"
| "check_loop ((session_id, rec) # rest) changed_garage old_available current_time st =
     (if current_time - r_timestamp rec > 300
      then check_loop rest changed_garage old_available current_time st
      else if r_garage_name rec = name changed_garage then
        (if available_spots changed_garage = 0 then
           (case send_reroute_notification st session_id rec ''full'' current_time of
              Returns st' \<Rightarrow> check_loop rest changed_garage old_available current_time st'
            | Blocks \<Rightarrow> Blocks
            | Raises e \<Rightarrow> Raises e)
         else if available_spots changed_garage < 5 \<and> old_available \<ge> 5 then
           check_loop rest changed_garage old_available current_time
             (send_low_availability_warning st session_id changed_garage)
         else check_loop rest changed_garage old_available current_time st)
      else check_loop rest changed_garage old_available current_time st)"

definition check_user_recommendations :: "state \<Rightarrow> garage \<Rightarrow> int \<Rightarrow> real \<Rightarrow> state outcome" where
  "check_user_recommendations st changed_garage old_available current_time =
     check_loop (user_recommendations st) changed_garage old_available current_time st"

subsection \<open>Availability simulators\<close>

text \<open>
  The assignment to \<^verbatim>\<open>"available_spots"\<close> in both simulators:
  \<^verbatim>\<open>max(0, min(capacity, available + change))\<close>.
\<close>

definition adjust_available :: "garage \<Rightarrow> int \<Rightarrow> garage" where
  "adjust_available g change =
     g\<lparr>available_spots := max 0 (min (total_spots g) (available_spots g + change))\<rparr>"

text \<open>
  One pass of \<^verbatim>\<open>simulate_spots\<close> over the garages, by index; \<open>change_of i\<close> is the
  number that \<^verbatim>\<open>random.randint(-5, 5)\<close> draws for garage \<open>i\<close>.
\<close>

fun spots_loop :: "nat list \<Rightarrow> (nat \<Rightarrow> int) \<Rightarrow> real \<Rightarrow> state \<Rightarrow> state outcome" where
  "spots_loop [] change_of now st = Returns st"
| "spots_loop (i # is) change_of now st =
     (let g = parking_spots st ! i;
          change = change_of i;
          old_available = available_spots g;
          g' = adjust_available g change;
          st1 = st\<lparr>parking_spots := (parking_spots st)[i := g']\<rparr>
      in if available_spots g' \<noteq> old_available then
           (case check_user_recommendations st1 g' old_available now of
              Returns st2 \<Rightarrow> spots_loop is change_of now st2
            | Blocks \<Rightarrow> Blocks
            | Raises e \<Rightarrow> Raises e)
         else spots_loop is change_of now st1)"

text \<open>
  One round of the loop of \<^verbatim>\<open>simulate_spots\<close>: the whole pass, with the calls to
  \<^verbatim>\<open>check_user_recommendations\<close>, runs inside \<^verbatim>\<open>with parking_lock\<close>.
\<close>

definition simulate_spots_tick :: "state \<Rightarrow> (nat \<Rightarrow> int) \<Rightarrow> real \<Rightarrow> state outcome" where
  "simulate_spots_tick st change_of now =
     (if parking_lock st then Blocks
      else
        (case spots_loop [0 ..< length (parking_spots st)] change_of now
                (st\<lparr>parking_lock := True\<rparr>) of
           Returns st' \<Rightarrow> Returns (st'\<lparr>parking_lock := False\<rparr>)
         | Blocks \<Rightarrow> Blocks
         | Raises e \<Rightarrow> Raises e))"


subsection \<open>Requests\<close>

text \<open>
  The values a field of a request can hold: JSON values for the socket event, strings
  for the query parameters of the HTTP endpoint.
\<close>

datatype pyval = PyNone | PyBool bool | PyInt int | PyFloat real | PyStr string | PyOther

text \<open>
  \<^verbatim>\<open>float(v)\<close>. The conversion of a string is Python's and is a parameter,
  \<open>str_to_float\<close>, with \<open>None\<close> for \<^verbatim>\<open>ValueError\<close>.
\<close>

definition py_float :: "(string \<Rightarrow> real option) \<Rightarrow> pyval \<Rightarrow> pyerror + real" where
  "py_float str_to_float v =
     (case v of
        PyNone \<Rightarrow> Inl TypeError
      | PyBool b \<Rightarrow> Inr (if b then 1 else 0)
      | PyInt i \<Rightarrow> Inr (of_int i)
      | PyFloat x \<Rightarrow> Inr x
      | PyStr s \<Rightarrow> (case str_to_float s of None \<Rightarrow> Inl ValueError | Some x \<Rightarrow> Inr x)
      | PyOther \<Rightarrow> Inl TypeError)"

text \<open>
  \<^verbatim>\<open>d.get(k, default)\<close>.
\<close>

definition dict_get :: "(string \<rightharpoonup> pyval) \<Rightarrow> string \<Rightarrow> pyval \<Rightarrow> pyval" where
  "dict_get d k dflt = (case d k of None \<Rightarrow> dflt | Some v \<Rightarrow> v)"

text \<open>
  The \<^verbatim>\<open>try\<close> block of both handlers: the four coordinates, then the duration with
  the default 1. The first failing conversion raises.
\<close>

definition parse_request ::
  "(string \<Rightarrow> real option) \<Rightarrow> (string \<rightharpoonup> pyval)
     \<Rightarrow> pyerror + (real \<times> real \<times> real \<times> real \<times> real)" where
  "parse_request str_to_float data =
     (case py_float str_to_float (dict_get data ''user_lat'' PyNone) of
        Inl e \<Rightarrow> Inl e
      | Inr user_lat \<Rightarrow>
     (case py_float str_to_float (dict_get data ''user_lng'' PyNone) of
        Inl e \<Rightarrow> Inl e
      | Inr user_lng \<Rightarrow>
     (case py_float str_to_float (dict_get data ''dest_lat'' PyNone) of
        Inl e \<Rightarrow> Inl e
      | Inr dest_lat \<Rightarrow>
     (case py_float str_to_float (dict_get data ''dest_lng'' PyNone) of
        Inl e \<Rightarrow> Inl e
      | Inr dest_lng \<Rightarrow>
     (case py_float str_to_float (dict_get data ''duration'' (PyInt 1)) of
        Inl e \<Rightarrow> Inl e
      | Inr duration \<Rightarrow> Inr (user_lat, user_lng, dest_lat, dest_lng, duration))))))"

text \<open>
  \<^verbatim>\<open>handle_parking_request(data)\<close> for the session \<open>session_id\<close> of the user \<open>username\<close>.
\<close>

definition handle_parking_request ::
  "(string \<Rightarrow> real option) \<Rightarrow> state \<Rightarrow> string \<Rightarrow> string option \<Rightarrow> (string \<rightharpoonup> pyval)
     \<Rightarrow> real \<Rightarrow> state outcome" where
  "handle_parking_request str_to_float st session_id username data now =
     (case parse_request str_to_float data of
        Inl e \<Rightarrow> Returns (emit st session_id (Error_note ''Invalid location data''))
      | Inr (user_lat, user_lng, dest_lat, dest_lng, duration) \<Rightarrow>
          (case find_best_garage st user_lat user_lng dest_lat dest_lng username of
             Blocks \<Rightarrow> Blocks
           | Raises e \<Rightarrow> Raises e
           | Returns (best_garage_opt, best_drive, best_walk) \<Rightarrow>
               (case best_garage_opt of
                  None \<Rightarrow> Returns (emit st session_id (Error_note ''No parking available''))
                | Some best_garage \<Rightarrow>
                    (case find_top_garages st user_lat user_lng dest_lat dest_lng username 3 of
                       Blocks \<Rightarrow> Blocks
                     | Raises e \<Rightarrow> Raises e
                     | Returns top_garages \<Rightarrow>
                         (let alternatives =
                                map (\<lambda>(score, alt, drive_dist, walk_dist).
                                       (alt, round2 (price_per_hour alt * duration),
                                        drive_dist, walk_dist))
                                    (drop 1 top_garages);
                              st1 = st\<lparr>user_recommendations :=
                                      dict_set (user_recommendations st) session_id
                                        \<lparr>r_username = username,
                                         r_garage_name = name best_garage,
                                         r_timestamp = now,
                                         r_user_lat = user_lat, r_user_lng = user_lng,
                                         r_dest_lat = dest_lat, r_dest_lng = dest_lng,
                                         r_duration = duration,
                                         r_walk_distance = best_walk\<rparr>\<rparr>
                          in Returns (emit st1 session_id
                               (Recommendation_note best_garage
                                  (round2 (price_per_hour best_garage * duration))
                                  best_drive best_walk alternatives)))))))"

text \<open>
  The answer of \<^verbatim>\<open>/current_parking\<close>: an error with its status, or the best garage,
  its estimated cost, the alternatives (garage, cost difference, estimated cost) and the
  rounded score. The directions come from an external service; the fields made from
  them are left out.
\<close>

datatype http_response =
    Http_error nat string
  | Http_ok garage real "(garage \<times> real \<times> real) list" real

definition args_get :: "(string \<rightharpoonup> string) \<Rightarrow> string \<rightharpoonup> pyval" where
  "args_get args k = map_option PyStr (args k)"

definition current_parking ::
  "(string \<Rightarrow> real option) \<Rightarrow> garage list \<Rightarrow> (string \<rightharpoonup> string) \<Rightarrow> http_response" where
  "current_parking str_to_float spots args =
     (case parse_request str_to_float (args_get args) of
        Inl e \<Rightarrow> Http_error 400 ''Missing or invalid parameters''
      | Inr (user_lat, user_lng, dest_lat, dest_lng, duration) \<Rightarrow>
          (case find_top_parking spots dest_lat dest_lng 3 of
             [] \<Rightarrow> Http_error 404 ''No parking available''
           | (best, score) # rest \<Rightarrow>
               (let total_cost = round2 (price_per_hour best * duration);
                    alternatives =
                      map (\<lambda>(alt, alt_score).
                             (alt,
                              round2 ((price_per_hour alt - price_per_hour best) * duration),
                              round2 (price_per_hour alt * duration)))
                          rest
                in Http_ok best total_cost alternatives (round2 score))))"

subsection \<open>Navigation loop of the second module\<close>







subsection \<open>Notions of the specification\<close>

text \<open>
  The preference of a trip, as the specification has it: the weight stored for the
  requester, if the request comes from a known user with a non-empty name.
\<close>

definition spec_preference :: "(string \<rightharpoonup> user) \<Rightarrow> string option \<Rightarrow> real option" where
  "spec_preference db requester =
     (case requester of
        None \<Rightarrow> None
      | Some u \<Rightarrow> if u = [] then None
                  else (case db u of None \<Rightarrow> None | Some entry \<Rightarrow> user_price_weight entry))"


text \<open>
  A request is malformed when one of the four coordinates is missing or does not convert
  to a number, or when the duration is present and does not convert.
\<close>

definition malformed_coordinates :: "(string \<Rightarrow> real option) \<Rightarrow> (string \<rightharpoonup> pyval) \<Rightarrow> bool" where
  "malformed_coordinates str_to_float data =
     (isl (py_float str_to_float (dict_get data ''user_lat'' PyNone))
      \<or> isl (py_float str_to_float (dict_get data ''user_lng'' PyNone))
      \<or> isl (py_float str_to_float (dict_get data ''dest_lat'' PyNone))
      \<or> isl (py_float str_to_float (dict_get data ''dest_lng'' PyNone)))"

definition malformed_request :: "(string \<Rightarrow> real option) \<Rightarrow> (string \<rightharpoonup> pyval) \<Rightarrow> bool" where
  "malformed_request str_to_float data =
     (malformed_coordinates str_to_float data
      \<or> isl (py_float str_to_float (dict_get data ''duration'' (PyInt 1))))"

text \<open>
  The entries of the ledger that \<open>check_user_recommendations\<close> acts on, as the
  specification words them: bound to the name of the location and at most 300 time units
  old.
\<close>

definition live_for :: "garage \<Rightarrow> real \<Rightarrow> (string \<times> recommendation) list \<Rightarrow> (string \<times> recommendation) list" where
  "live_for g now entries =
     filter (\<lambda>(session_id, r). now - r_timestamp r \<le> 300 \<and> r_garage_name r = name g) entries"


subsection \<open>Concrete inputs\<close>

text \<open>
  A garage at latitude 0 and longitude 0, and a state with no users and nothing sent.
\<close>

definition mk_garage :: "string \<Rightarrow> real \<Rightarrow> int \<Rightarrow> int \<Rightarrow> garage" where
  "mk_garage nm price capacity free =
     \<lparr>name = nm, address = ''1 Main St'', lat = 0, lng = 0, price_per_hour = price,
      gtype = ''garage'', total_spots = capacity, available_spots = free,
      payment_methods = [''app''], hours = ''24/7''\<rparr>"

definition mk_state :: "garage list \<Rightarrow> (string \<times> recommendation) list \<Rightarrow> bool \<Rightarrow> state" where
  "mk_state spots ledger locked =
     \<lparr>parking_spots = spots, user_recommendations = ledger, users_db = Map.empty,
      parking_lock = locked, emitted = []\<rparr>"

text \<open>A garage on the equator at longitude 180, for the examples of the navigation loop.\<close>

definition far_garage :: "string \<Rightarrow> real \<Rightarrow> int \<Rightarrow> garage" where
  "far_garage nm price free = (mk_garage nm price 100 free)\<lparr>lng := 180\<rparr>"

text \<open>
  A ledger entry for a trip from and to latitude 0, longitude 0, of one hour, by a guest.
\<close>

definition mk_rec :: "string \<Rightarrow> real \<Rightarrow> recommendation" where
  "mk_rec garage_nm stamp =
     \<lparr>r_username = None, r_garage_name = garage_nm, r_timestamp = stamp,
      r_user_lat = 0, r_user_lng = 0, r_dest_lat = 0, r_dest_lng = 0,
      r_duration = 1, r_walk_distance = 0\<rparr>"

section \<open>Properties\<close>

subsection \<open>Distance\<close>

lemma radians_diff: "radians (x - y) = radians x - radians y"
  by (simp add: radians_def left_diff_distrib)

lemma radians_minus: "radians (- x) = - radians x"
  by (simp add: radians_def)

lemma cos_mult_le: "cos (p::real) * cos q \<le> (cos ((q - p) / 2))\<^sup>2"
proof -
  have "cos p * cos q = (cos (q - p) + cos (q + p)) / 2"
    by (simp add: cos_add cos_diff)
  also have "\<dots> \<le> (cos (q - p) + 1) / 2" by simp
  also have "\<dots> = (cos ((q - p) / 2))\<^sup>2"
  proof -
    define h where "h = (q - p) / 2"
    have qp: "q - p = 2 * h" by (simp add: h_def)
    have "cos (2 * h) = 2 * (cos h)\<^sup>2 - 1" by (rule cos_double_cos)
    then show ?thesis unfolding qp h_def [symmetric] by simp
  qed
  finally show ?thesis .
qed

lemma cos_mult_ge: "- (sin ((q - p) / 2))\<^sup>2 \<le> cos (p::real) * cos q"
proof -
  define h where "h = (q - p) / 2"
  have qp: "q - p = 2 * h" by (simp add: h_def)
  have d: "cos (2 * h) = 1 - 2 * (sin h)\<^sup>2" by (rule cos_double_sin)
  have "- (sin h)\<^sup>2 = (cos (q - p) - 1) / 2" unfolding qp d by simp
  also have "\<dots> \<le> (cos (q - p) + cos (q + p)) / 2" by simp
  also have "\<dots> = cos p * cos q" by (simp add: cos_add cos_diff)
  finally show ?thesis unfolding h_def .
qed

lemma hav_a_expand:
  "hav_a lat1 lon1 lat2 lon2 =
     (sin ((radians lat2 - radians lat1) / 2))\<^sup>2
       + cos (radians lat1) * cos (radians lat2) * (sin (radians (lon2 - lon1) / 2))\<^sup>2"
  by (simp add: hav_a_def Let_def radians_diff)

lemma hav_a_range: "0 \<le> hav_a lat1 lon1 lat2 lon2 \<and> hav_a lat1 lon1 lat2 lon2 \<le> 1"
proof -
  define p where "p = radians lat1"
  define q where "q = radians lat2"
  define s where "s = (sin (radians (lon2 - lon1) / 2))\<^sup>2"
  define k where "k = cos p * cos q"
  have s01: "0 \<le> s" "s \<le> 1" unfolding s_def by (simp_all add: abs_square_le_1)
  have up: "k \<le> (cos ((q - p) / 2))\<^sup>2" unfolding k_def by (rule cos_mult_le)
  have lo: "- (sin ((q - p) / 2))\<^sup>2 \<le> k" unfolding k_def by (rule cos_mult_ge)
  have one: "(sin ((q - p) / 2))\<^sup>2 + (cos ((q - p) / 2))\<^sup>2 = 1" by simp
  have a: "hav_a lat1 lon1 lat2 lon2 = (sin ((q - p) / 2))\<^sup>2 + k * s"
    by (simp add: hav_a_expand p_def q_def s_def k_def)
  have ks_up: "k * s \<le> (cos ((q - p) / 2))\<^sup>2"
  proof (cases "0 \<le> k")
    case True
    then have "k * s \<le> k * 1" using s01 by (intro mult_left_mono) auto
    with up show ?thesis by simp
  next
    case False
    then have "k \<le> 0" by simp
    then have "k * s \<le> 0" using s01(1) by (rule mult_nonpos_nonneg)
    moreover have "0 \<le> (cos ((q - p) / 2))\<^sup>2" by simp
    ultimately show ?thesis by linarith
  qed
  have ks_lo: "- (sin ((q - p) / 2))\<^sup>2 \<le> k * s"
  proof (cases "0 \<le> k")
    case True
    then have "0 \<le> k * s" using s01(1) by simp
    moreover have "0 \<le> (sin ((q - p) / 2))\<^sup>2" by simp
    ultimately show ?thesis by linarith
  next
    case False
    then have "k \<le> 0" by simp
    then have "k * 1 \<le> k * s" using s01(2) by (rule mult_left_mono_neg [rotated])
    with lo show ?thesis by simp
  qed
  from a ks_up ks_lo one show ?thesis by linarith
qed

lemma atan2_nonneg: "0 \<le> y \<Longrightarrow> 0 \<le> atan2 y x"
proof -
  assume y: "0 \<le> y"
  have "- (pi / 2) < arctan (y / x)" by (rule arctan_lbound)
  then have "x < 0 \<Longrightarrow> 0 \<le> arctan (y / x) + pi" using pi_gt_zero by linarith
  moreover have "0 < x \<Longrightarrow> 0 \<le> arctan (y / x)" using y by simp
  ultimately show ?thesis using y by (auto simp: atan2_def)
qed

lemma atan2_eq_0_iff: "0 \<le> y \<Longrightarrow> 0 \<le> x \<Longrightarrow> atan2 y x = 0 \<longleftrightarrow> y = 0"
  by (auto simp: atan2_def)

lemma haversine_nonneg: "0 \<le> haversine lat1 lon1 lat2 lon2"
proof -
  have "0 \<le> atan2 (sqrt (hav_a lat1 lon1 lat2 lon2)) (sqrt (1 - hav_a lat1 lon1 lat2 lon2))"
    using hav_a_range [of lat1 lon1 lat2 lon2] by (intro atan2_nonneg) simp
  then show ?thesis by (simp add: haversine_def Let_def)
qed

lemma hav_a_sym: "hav_a lat1 lon1 lat2 lon2 = hav_a lat2 lon2 lat1 lon1"
proof -
  have e1: "(radians lat2 - radians lat1) / 2 = - ((radians lat1 - radians lat2) / 2)"
    by argo
  have e2: "radians (lon2 - lon1) / 2 = - (radians (lon1 - lon2) / 2)"
    unfolding radians_diff by argo
  have "sin ((radians lat2 - radians lat1) / 2) = - sin ((radians lat1 - radians lat2) / 2)"
    by (subst e1) (rule sin_minus)
  moreover have "sin (radians (lon2 - lon1) / 2) = - sin (radians (lon1 - lon2) / 2)"
    by (subst e2) (rule sin_minus)
  ultimately show ?thesis by (simp add: hav_a_expand mult.commute)
qed

lemma haversine_sym: "haversine lat1 lon1 lat2 lon2 = haversine lat2 lon2 lat1 lon1"
  by (simp add: haversine_def Let_def hav_a_sym [of lat1 lon1 lat2 lon2])

lemma haversine_eq_0_iff: "haversine lat1 lon1 lat2 lon2 = 0 \<longleftrightarrow> hav_a lat1 lon1 lat2 lon2 = 0"
proof -
  define a where "a = hav_a lat1 lon1 lat2 lon2"
  have r: "0 \<le> a" "a \<le> 1" using hav_a_range [of lat1 lon1 lat2 lon2] by (simp_all add: a_def)
  have "haversine lat1 lon1 lat2 lon2 = 0 \<longleftrightarrow> atan2 (sqrt a) (sqrt (1 - a)) = 0"
    by (simp add: haversine_def Let_def a_def)
  also have "\<dots> \<longleftrightarrow> sqrt a = 0" using r by (intro atan2_eq_0_iff) simp_all
  also have "\<dots> \<longleftrightarrow> a = 0" by simp
  finally show ?thesis unfolding a_def .
qed

lemma haversine_same: "haversine la lo la lo = 0"
  by (simp add: haversine_eq_0_iff hav_a_expand radians_def)

lemma radians_bound: "\<bar>x\<bar> < c \<Longrightarrow> \<bar>radians x\<bar> < c * (pi / 180)"
proof -
  assume "\<bar>x\<bar> < c"
  then have "\<bar>x\<bar> * (pi / 180) < c * (pi / 180)"
    using pi_gt_zero by (intro mult_strict_right_mono) simp_all
  moreover have "\<bar>radians x\<bar> = \<bar>x\<bar> * (pi / 180)"
    by (simp add: radians_def abs_mult)
  ultimately show ?thesis by simp
qed

lemma hav_a_zero_in_range:
  assumes la1: "\<bar>la1\<bar> < 90" and la2: "\<bar>la2\<bar> < 90" and lo: "\<bar>lo2 - lo1\<bar> < 360"
    and z: "hav_a la1 lo1 la2 lo2 = 0"
  shows "la1 = la2 \<and> lo1 = lo2"
proof -
  define u where "u = (radians la2 - radians la1) / 2"
  define v where "v = radians (lo2 - lo1) / 2"
  have r1: "\<bar>radians la1\<bar> < pi / 2" using radians_bound [OF la1] by simp
  have r2: "\<bar>radians la2\<bar> < pi / 2" using radians_bound [OF la2] by simp
  have r3: "\<bar>radians (lo2 - lo1)\<bar> < 2 * pi" using radians_bound [OF lo] by simp
  have c1: "0 < cos (radians la1)"
    using r1 by (intro cos_gt_zero_pi) (simp_all add: abs_less_iff)
  have c2: "0 < cos (radians la2)"
    using r2 by (intro cos_gt_zero_pi) (simp_all add: abs_less_iff)
  have k: "0 < cos (radians la1) * cos (radians la2)" using c1 c2 by simp
  have sum0: "(sin u)\<^sup>2 + cos (radians la1) * cos (radians la2) * (sin v)\<^sup>2 = 0"
    using z by (simp add: hav_a_expand u_def v_def)
  have t2: "0 \<le> cos (radians la1) * cos (radians la2) * (sin v)\<^sup>2" using k by simp
  have t1: "0 \<le> (sin u)\<^sup>2" by simp
  from sum0 t1 t2 have su: "(sin u)\<^sup>2 = 0"
    and sv': "cos (radians la1) * cos (radians la2) * (sin v)\<^sup>2 = 0" by linarith+
  from sv' c1 c2 have sv: "sin v = 0" by simp
  from su have su0: "sin u = 0" by simp
  have ub: "- pi < u" "u < pi"
    using r1 r2 unfolding u_def by (auto simp: abs_less_iff)
  have vb: "- pi < v" "v < pi"
    using r3 unfolding v_def by (auto simp: abs_less_iff)
  have "u = 0" using ub su0 by (rule sin_eq_0_pi)
  moreover have "v = 0" using vb sv by (rule sin_eq_0_pi)
  ultimately show ?thesis using pi_gt_zero by (simp add: u_def v_def radians_def)
qed

text \<open>
  Claim C8 is about the numbers the double-precision code returns: whether a distance is
  exactly zero, and whether the square roots are taken of non-negative numbers, is
  decided by rounding, which this development does not model. In exact arithmetic the
  formula is never negative, symmetric and zero from a point to itself; zero distance
  makes the coordinate pairs equal for latitudes strictly between the poles and
  longitudes less than a full turn apart, and not in general.
\<close>

lemma haversine_exact:
  "0 \<le> haversine la1 lo1 la2 lo2
   \<and> haversine la1 lo1 la2 lo2 = haversine la2 lo2 la1 lo1
   \<and> haversine la1 lo1 la1 lo1 = 0
   \<and> (\<bar>la1\<bar> < 90 \<and> \<bar>la2\<bar> < 90 \<and> \<bar>lo2 - lo1\<bar> < 360
        \<longrightarrow> (haversine la1 lo1 la2 lo2 = 0 \<longleftrightarrow> la1 = la2 \<and> lo1 = lo2))"
proof (intro conjI impI)
  show "0 \<le> haversine la1 lo1 la2 lo2" by (rule haversine_nonneg)
  show "haversine la1 lo1 la2 lo2 = haversine la2 lo2 la1 lo1" by (rule haversine_sym)
  show "haversine la1 lo1 la1 lo1 = 0" by (rule haversine_same)
  assume h: "\<bar>la1\<bar> < 90 \<and> \<bar>la2\<bar> < 90 \<and> \<bar>lo2 - lo1\<bar> < 360"
  show "haversine la1 lo1 la2 lo2 = 0 \<longleftrightarrow> la1 = la2 \<and> lo1 = lo2"
  proof
    assume "haversine la1 lo1 la2 lo2 = 0"
    then have "hav_a la1 lo1 la2 lo2 = 0" by (simp add: haversine_eq_0_iff)
    with h show "la1 = la2 \<and> lo1 = lo2" by (intro hav_a_zero_in_range) simp_all
  next
    assume "la1 = la2 \<and> lo1 = lo2"
    then show "haversine la1 lo1 la2 lo2 = 0" by (simp add: haversine_same)
  qed
qed

lemma haversine_exact_full_turn: "haversine 0 0 0 360 = 0"
  by (simp add: haversine_eq_0_iff hav_a_expand radians_def)

subsection \<open>Ranking\<close>

lemma py_slice_to_take: "\<exists>k. py_slice_to xs n = take k xs"
  by (auto simp: py_slice_to_def)

lemma sorted_py_slice: "sorted (map f xs) \<Longrightarrow> sorted (map f (py_slice_to xs n))"
  using py_slice_to_take [of xs n] by (auto simp: take_map [symmetric] sorted_wrt_take)

lemma prefix_filter_take: "prefix (filter P (take k xs)) (filter P xs)"
  by (metis append_take_drop_id filter_append prefixI)

lemma stable_py_slice:
  "prefix (filter (\<lambda>e. f e = k) (py_slice_to (sort_key f xs) n)) (filter (\<lambda>e. f e = k) xs)"
proof -
  obtain m where "py_slice_to (sort_key f xs) n = take m (sort_key f xs)"
    using py_slice_to_take by blast
  then have "prefix (filter (\<lambda>e. f e = k) (py_slice_to (sort_key f xs) n))
                    (filter (\<lambda>e. f e = k) (sort_key f xs))"
    by (simp add: prefix_filter_take)
  then show ?thesis by (simp add: sort_key_stable)
qed

lemma length_py_slice: "0 \<le> n \<Longrightarrow> int (length (py_slice_to xs n)) \<le> n"
  by (auto simp: py_slice_to_def)

lemma set_py_slice: "set (py_slice_to xs n) \<subseteq> set xs"
  using py_slice_to_take [of xs n] by (auto dest: in_set_takeD)

subsection \<open>Recommendations have free places\<close>

lemma mk_garage_sel [simp]:
  "name (mk_garage nm p t a) = nm" "lat (mk_garage nm p t a) = 0" "lng (mk_garage nm p t a) = 0"
  "price_per_hour (mk_garage nm p t a) = p" "total_spots (mk_garage nm p t a) = t"
  "available_spots (mk_garage nm p t a) = a"
  by (simp_all add: mk_garage_def)

lemma mk_state_sel [simp]:
  "parking_spots (mk_state s l b) = s" "user_recommendations (mk_state s l b) = l"
  "users_db (mk_state s l b) = Map.empty" "parking_lock (mk_state s l b) = b"
  "emitted (mk_state s l b) = []"
  by (simp_all add: mk_state_def)

lemma score_at_origin:
  "score_parking (mk_garage nm p t a) 0 0 0 0 (Some w)
     = ((w * p * 100) * (if a > 20 then 1 else 1.5), 0, 0)"
  by (simp add: score_parking_def Let_def haversine_same)

lemma best_loop_garage:
  "best_loop gs a b c d w acc = (s, Some g, x, y) \<Longrightarrow> g \<in> set gs \<or> fst (snd acc) = Some g"
proof (induction gs arbitrary: acc)
  case Nil
  then show ?case by simp
next
  case (Cons h gs)
  obtain bs bg bd bw where acc: "acc = (bs, bg, bd, bw)" by (cases acc) auto
  obtain sc dd wd where sp: "score_parking h a b c d (Some w) = (sc, dd, wd)"
    by (cases "score_parking h a b c d (Some w)") auto
  show ?case
  proof (cases "case bs of None \<Rightarrow> True | Some v \<Rightarrow> sc < v")
    case True
    with Cons.prems acc sp
    have "best_loop gs a b c d w (Some sc, Some h, dd, wd) = (s, Some g, x, y)" by simp
    from Cons.IH [OF this] show ?thesis by auto
  next
    case False
    with Cons.prems acc sp
    have "best_loop gs a b c d w (bs, bg, bd, bw) = (s, Some g, x, y)" by simp
    from Cons.IH [OF this] acc show ?thesis by auto
  qed
qed

lemma find_best_garage_available:
  assumes "find_best_garage st ul ug dl dg username = Returns (Some g, d, w)"
  shows "g \<in> set (parking_spots st) \<and> 0 < available_spots g"
proof -
  define av where "av = filter (\<lambda>g. 0 < available_spots g) (parking_spots st)"
  define pw where "pw = price_weight_for (users_db st) username"
  obtain s bg bd bw where bl: "best_loop av ul ug dl dg pw (None, None, 0, 0) = (s, bg, bd, bw)"
    by (cases "best_loop av ul ug dl dg pw (None, None, 0, 0)") auto
  from assms have "bg = Some g"
    by (auto simp: find_best_garage_def Let_def av_def [symmetric] pw_def [symmetric] bl
             split: if_splits)
  with bl have "g \<in> set av" using best_loop_garage [of av ul ug dl dg pw "(None, None, 0, 0)"]
    by auto
  then show ?thesis by (simp add: av_def)
qed

lemma find_top_garages_set:
  assumes "find_top_garages st ul ug dl dg username n = Returns r" and "e \<in> set r"
  shows "fst (snd e) \<in> set (parking_spots st) \<and> 0 < available_spots (fst (snd e))"
proof -
  define av where "av = filter (\<lambda>g. 0 < available_spots g) (parking_spots st)"
  define pw where "pw = price_weight_for (users_db st) username"
  from assms have "e \<in> set (py_slice_to (sort_key fst (scored_garages av ul ug dl dg pw)) n)"
    by (auto simp: find_top_garages_def Let_def av_def [symmetric] pw_def [symmetric]
             split: if_splits)
  then have "e \<in> set (scored_garages av ul ug dl dg pw)"
    using set_py_slice by fastforce
  then have "fst (snd e) \<in> set av"
    by (auto simp: scored_garages_def split: prod.splits)
  then show ?thesis by (simp add: av_def)
qed

lemma find_top_garages_returns:
  "\<not> parking_lock st \<Longrightarrow> \<exists>r. find_top_garages st ul ug dl dg username n = Returns r"
  by (simp add: find_top_garages_def Let_def)

lemma find_top_parking_set:
  assumes "e \<in> set (find_top_parking spots dl dg n)"
  shows "fst e \<in> set spots \<and> 0 < available_spots (fst e)"
proof -
  define av where "av = filter (\<lambda>g. 0 < available_spots g) spots"
  define sc where "sc = map (\<lambda>p. (score_parking_v2 p dl dg None, p)) av"
  from assms have "e \<in> (\<lambda>(s, p). (p, s)) ` set (py_slice_to (sort_key fst sc) n)"
    by (auto simp: find_top_parking_def Let_def av_def [symmetric] sc_def [symmetric]
             split: if_splits)
  then obtain s p where "e = (p, s)" "(s, p) \<in> set (py_slice_to (sort_key fst sc) n)" by auto
  moreover then have "(s, p) \<in> set sc" using set_py_slice by fastforce
  ultimately have "fst e \<in> set av" by (auto simp: sc_def)
  then show ?thesis by (simp add: av_def)
qed

text \<open>
  Claim C2. Every location in the list that \<open>find_top_garages\<close> returns has a strictly
  positive available count, and the call returns whenever the lock is free; the same
  holds for the single best garage of \<open>find_best_garage\<close> and for the list of
  \<open>find_top_parking\<close> of the second module.
\<close>

theorem recommend_available:
  "(\<forall>r. find_top_garages st ul ug dl dg username n = Returns r
        \<longrightarrow> (\<forall>e \<in> set r. 0 < available_spots (fst (snd e))))
   \<and> (\<not> parking_lock st \<longrightarrow> (\<exists>r. find_top_garages st ul ug dl dg username n = Returns r))
   \<and> (\<forall>g d w. find_best_garage st ul ug dl dg username = Returns (Some g, d, w)
        \<longrightarrow> 0 < available_spots g)
   \<and> (\<forall>e \<in> set (find_top_parking spots dl dg n). 0 < available_spots (fst e))"
proof (intro conjI allI impI ballI)
  fix r e
  assume "find_top_garages st ul ug dl dg username n = Returns r" and "e \<in> set r"
  then show "0 < available_spots (fst (snd e))" by (rule find_top_garages_set [THEN conjunct2])
next
  assume "\<not> parking_lock st"
  then show "\<exists>r. find_top_garages st ul ug dl dg username n = Returns r"
    by (rule find_top_garages_returns)
next
  fix g d w
  assume "find_best_garage st ul ug dl dg username = Returns (Some g, d, w)"
  then show "0 < available_spots g" by (rule find_best_garage_available [THEN conjunct2])
next
  fix e
  assume "e \<in> set (find_top_parking spots dl dg n)"
  then show "0 < available_spots (fst e)" by (rule find_top_parking_set [THEN conjunct2])
qed

lemma sort2: "sort_key fst [(a::real, x), (b, y)] = (if b < a then [(b, y), (a, x)] else [(a, x), (b, y)])"
  by auto

theorem recommend_available_witness:
  "\<not> parking_lock (mk_state [mk_garage ''A'' 3 100 0, mk_garage ''B'' 2 150 80] [] False)
   \<and> find_top_garages (mk_state [mk_garage ''A'' 3 100 0, mk_garage ''B'' 2 150 80] [] False)
        0 0 0 0 None 3 = Returns [(60, mk_garage ''B'' 2 150 80, 0, 0)]
   \<and> 0 < available_spots (mk_garage ''B'' 2 150 80)
   \<and> find_top_parking [mk_garage ''A'' 3 100 0, mk_garage ''B'' 2 150 80] 0 0 3
        = [(mk_garage ''B'' 2 150 80, 100)]"
  using recommend_available
    [of "mk_state [mk_garage ''A'' 3 100 0, mk_garage ''B'' 2 150 80] [] False" 0 0 0 0 None 3
        "[mk_garage ''A'' 3 100 0, mk_garage ''B'' 2 150 80]"]
  by (simp add: find_top_garages_def find_top_parking_def scored_garages_def score_at_origin
        price_weight_for_def py_slice_to_def score_parking_v2_def haversine_same Let_def)

subsection \<open>Order of the recommendations\<close>

lemma find_top_garages_unlocked:
  "\<not> parking_lock st \<Longrightarrow>
   find_top_garages st ul ug dl dg username n
     = Returns (py_slice_to
         (sort_key fst (scored_garages (filter (\<lambda>g. 0 < available_spots g) (parking_spots st))
            ul ug dl dg (price_weight_for (users_db st) username))) n)"
  by (simp add: find_top_garages_def Let_def scored_garages_def py_slice_to_def)

lemma find_top_parking_eq:
  "find_top_parking spots dl dg n
     = map (\<lambda>(s, p). (p, s)) (py_slice_to
         (sort_key fst (map (\<lambda>p. (score_parking_v2 p dl dg None, p))
            (filter (\<lambda>p. 0 < available_spots p) spots))) n)"
  by (simp add: find_top_parking_def Let_def py_slice_to_def)

lemma prefix_filter_map_swap:
  assumes "prefix (filter (\<lambda>e. fst e = k) xs) (filter (\<lambda>e. fst e = k) ys)"
  shows "prefix (filter (\<lambda>e. snd e = k) (map (\<lambda>(s, p). (p, s)) xs))
                (filter (\<lambda>e. snd e = k) (map (\<lambda>(s, p). (p, s)) ys))"
proof -
  have sw: "\<And>zs. filter (\<lambda>e. snd e = k) (map (\<lambda>(s, p). (p, s)) zs)
              = map (\<lambda>(s, p). (p, s)) (filter (\<lambda>e. fst e = k) zs)"
    by (simp add: filter_map comp_def case_prod_beta)
  show ?thesis unfolding sw using assms by (rule map_mono_prefix)
qed

text \<open>
  Claim C7. The list of \<open>find_top_garages\<close> is sorted by score; the candidates of one
  score are, in their order, the first candidates of that score in catalogue order; and
  for \<open>n \<ge> 0\<close> at most \<open>n\<close> candidates are returned. The same holds for
  \<open>find_top_parking\<close> of the second module.
\<close>

theorem recommend_sorted_stable:
  "(\<not> parking_lock st \<longrightarrow>
      (\<exists>r. find_top_garages st ul ug dl dg username n = Returns r
         \<and> sorted (map fst r)
         \<and> (\<forall>k. prefix (filter (\<lambda>e. fst e = k) r)
                  (filter (\<lambda>e. fst e = k)
                     (scored_garages (filter (\<lambda>g. 0 < available_spots g) (parking_spots st))
                        ul ug dl dg (price_weight_for (users_db st) username))))
         \<and> (0 \<le> n \<longrightarrow> int (length r) \<le> n)))
   \<and> sorted (map snd (find_top_parking spots dl dg n))
   \<and> (\<forall>k. prefix (filter (\<lambda>e. snd e = k) (find_top_parking spots dl dg n))
            (filter (\<lambda>e. snd e = k)
               (map (\<lambda>p. (p, score_parking_v2 p dl dg None))
                  (filter (\<lambda>p. 0 < available_spots p) spots))))
   \<and> (0 \<le> n \<longrightarrow> int (length (find_top_parking spots dl dg n)) \<le> n)"
proof (intro conjI impI allI)
  assume free: "\<not> parking_lock st"
  define sc where "sc = scored_garages (filter (\<lambda>g. 0 < available_spots g) (parking_spots st))
                          ul ug dl dg (price_weight_for (users_db st) username)"
  define r where "r = py_slice_to (sort_key fst sc) n"
  have 1: "find_top_garages st ul ug dl dg username n = Returns r"
    using free by (simp add: find_top_garages_unlocked r_def sc_def)
  have 2: "sorted (map fst r)" unfolding r_def by (intro sorted_py_slice) simp
  have 3: "\<forall>k. prefix (filter (\<lambda>e. fst e = k) r) (filter (\<lambda>e. fst e = k) sc)"
    unfolding r_def by (simp add: stable_py_slice)
  have 4: "0 \<le> n \<longrightarrow> int (length r) \<le> n" unfolding r_def by (simp add: length_py_slice)
  from 1 2 3 4 show "\<exists>r. find_top_garages st ul ug dl dg username n = Returns r
         \<and> sorted (map fst r)
         \<and> (\<forall>k. prefix (filter (\<lambda>e. fst e = k) r)
                  (filter (\<lambda>e. fst e = k)
                     (scored_garages (filter (\<lambda>g. 0 < available_spots g) (parking_spots st))
                        ul ug dl dg (price_weight_for (users_db st) username))))
         \<and> (0 \<le> n \<longrightarrow> int (length r) \<le> n)"
    unfolding sc_def by blast
next
  define sc where "sc = map (\<lambda>p. (score_parking_v2 p dl dg None, p))
                          (filter (\<lambda>p. 0 < available_spots p) spots)"
  have "map snd (find_top_parking spots dl dg n) = map fst (py_slice_to (sort_key fst sc) n)"
    by (simp add: find_top_parking_eq sc_def comp_def case_prod_beta)
  moreover have "sorted (map fst (py_slice_to (sort_key fst sc) n))"
    by (intro sorted_py_slice) simp
  ultimately show "sorted (map snd (find_top_parking spots dl dg n))" by simp
next
  fix k
  define sc where "sc = map (\<lambda>p. (score_parking_v2 p dl dg None, p))
                          (filter (\<lambda>p. 0 < available_spots p) spots)"
  have "prefix (filter (\<lambda>e. fst e = k) (py_slice_to (sort_key fst sc) n))
               (filter (\<lambda>e. fst e = k) sc)"
    by (rule stable_py_slice)
  then have "prefix (filter (\<lambda>e. snd e = k) (map (\<lambda>(s, p). (p, s)) (py_slice_to (sort_key fst sc) n)))
                    (filter (\<lambda>e. snd e = k) (map (\<lambda>(s, p). (p, s)) sc))"
    by (rule prefix_filter_map_swap)
  moreover have "map (\<lambda>(s, p). (p, s)) sc
                   = map (\<lambda>p. (p, score_parking_v2 p dl dg None))
                       (filter (\<lambda>p. 0 < available_spots p) spots)"
    by (simp add: sc_def)
  ultimately show "prefix (filter (\<lambda>e. snd e = k) (find_top_parking spots dl dg n))
            (filter (\<lambda>e. snd e = k)
               (map (\<lambda>p. (p, score_parking_v2 p dl dg None))
                  (filter (\<lambda>p. 0 < available_spots p) spots)))"
    by (simp add: find_top_parking_eq sc_def comp_def)
next
  assume "0 \<le> n"
  then show "int (length (find_top_parking spots dl dg n)) \<le> n"
    by (simp add: find_top_parking_eq length_py_slice)
qed

theorem recommend_sorted_stable_witness:
  "\<not> parking_lock
       (mk_state [mk_garage ''A'' 2 100 80, mk_garage ''B'' 2 150 80, mk_garage ''C'' 1 75 30]
          [] False)
   \<and> (0::int) \<le> 3
   \<and> find_top_garages
       (mk_state [mk_garage ''A'' 2 100 80, mk_garage ''B'' 2 150 80, mk_garage ''C'' 1 75 30]
          [] False) 0 0 0 0 None 3
       = Returns [(30, mk_garage ''C'' 1 75 30, 0, 0), (60, mk_garage ''A'' 2 100 80, 0, 0),
                  (60, mk_garage ''B'' 2 150 80, 0, 0)]
   \<and> find_top_parking
       [mk_garage ''A'' 2 100 80, mk_garage ''B'' 2 150 80, mk_garage ''C'' 1 75 30] 0 0 3
       = [(mk_garage ''C'' 1 75 30, 50), (mk_garage ''A'' 2 100 80, 100),
          (mk_garage ''B'' 2 150 80, 100)]
   \<and> int (length (find_top_parking
       [mk_garage ''A'' 2 100 80, mk_garage ''B'' 2 150 80, mk_garage ''C'' 1 75 30] 0 0 3)) \<le> 3"
  using recommend_sorted_stable
    [of "mk_state [mk_garage ''A'' 2 100 80, mk_garage ''B'' 2 150 80, mk_garage ''C'' 1 75 30]
           [] False" 0 0 0 0 None 3
        "[mk_garage ''A'' 2 100 80, mk_garage ''B'' 2 150 80, mk_garage ''C'' 1 75 30]"]
  by (simp add: find_top_garages_def find_top_parking_def scored_garages_def score_at_origin
        price_weight_for_def py_slice_to_def score_parking_v2_def haversine_same Let_def)

subsection \<open>Availability stays within the capacity\<close>

lemma emit_sel [simp]:
  "parking_spots (emit st room p) = parking_spots st"
  "parking_lock (emit st room p) = parking_lock st"
  "users_db (emit st room p) = users_db st"
  "user_recommendations (emit st room p) = user_recommendations st"
  "emitted (emit st room p) = emitted st @ [(room, p)]"
  by (simp_all add: emit_def)









subsection \<open>Requests\<close>

lemma parse_request_Inl_iff:
  "(\<exists>e. parse_request f data = Inl e) \<longleftrightarrow> malformed_request f data"
  by (auto simp: parse_request_def malformed_request_def malformed_coordinates_def
           split: sum.splits)


lemma handle_parking_request_malformed:
  "malformed_request f data \<Longrightarrow>
   handle_parking_request f st sid username data now
     = Returns (emit st sid (Error_note ''Invalid location data''))"
  using parse_request_Inl_iff [of f data]
  by (auto simp: handle_parking_request_def)

lemma current_parking_malformed:
  "malformed_request f (args_get args) \<Longrightarrow>
   current_parking f spots args = Http_error 400 ''Missing or invalid parameters''"
  using parse_request_Inl_iff [of f "args_get args"]
  by (auto simp: current_parking_def)

text \<open>
  Claim C9, amended. A request in which a coordinate is missing or does not convert to a
  number, or whose duration is present and does not convert, is rejected before any
  scoring: the handler only sends the error (it returns even while the lock is held),
  the ledger is unchanged, and the HTTP endpoint answers 400. These are the only
  requests the \<open>try\<close> block rejects; it makes no check of ranges.
\<close>

theorem malformed_request_rejected:
  "(malformed_request f data \<longrightarrow>
      handle_parking_request f st sid username data now
        = Returns (emit st sid (Error_note ''Invalid location data''))
      \<and> user_recommendations (emit st sid (Error_note ''Invalid location data''))
          = user_recommendations st
      \<and> parking_spots (emit st sid (Error_note ''Invalid location data'')) = parking_spots st)
   \<and> (malformed_request f (args_get args) \<longrightarrow>
        current_parking f spots args = Http_error 400 ''Missing or invalid parameters'')
   \<and> ((\<exists>e. parse_request f data = Inl e) \<longleftrightarrow> malformed_request f data)"
  by (simp add: handle_parking_request_malformed current_parking_malformed
        parse_request_Inl_iff)

theorem malformed_request_rejected_witness:
  "malformed_request (\<lambda>s. None)
     [''user_lat'' \<mapsto> PyStr ''abc'', ''user_lng'' \<mapsto> PyFloat 0, ''dest_lat'' \<mapsto> PyFloat 0]
   \<and> handle_parking_request (\<lambda>s. None) (mk_state [mk_garage ''A'' 3 100 45] [] True) ''s1'' None
       [''user_lat'' \<mapsto> PyStr ''abc'', ''user_lng'' \<mapsto> PyFloat 0, ''dest_lat'' \<mapsto> PyFloat 0] 0
     = Returns (emit (mk_state [mk_garage ''A'' 3 100 45] [] True) ''s1''
                 (Error_note ''Invalid location data''))
   \<and> malformed_request (\<lambda>s. None) (args_get [''user_lat'' \<mapsto> ''abc''])
   \<and> current_parking (\<lambda>s. None) [mk_garage ''A'' 3 100 45] [''user_lat'' \<mapsto> ''abc'']
     = Http_error 400 ''Missing or invalid parameters''"
proof -
  have m1: "malformed_request (\<lambda>s. None)
     [''user_lat'' \<mapsto> PyStr ''abc'', ''user_lng'' \<mapsto> PyFloat 0, ''dest_lat'' \<mapsto> PyFloat 0]"
    by (simp add: malformed_request_def malformed_coordinates_def py_float_def dict_get_def)
  have m2: "malformed_request (\<lambda>s. None) (args_get [''user_lat'' \<mapsto> ''abc''])"
    by (simp add: malformed_request_def malformed_coordinates_def py_float_def dict_get_def
          args_get_def)
  from m1 m2 malformed_request_rejected
    [of "\<lambda>s. None"
        "[''user_lat'' \<mapsto> PyStr ''abc'', ''user_lng'' \<mapsto> PyFloat 0, ''dest_lat'' \<mapsto> PyFloat 0]"
        "mk_state [mk_garage ''A'' 3 100 45] [] True" "''s1''" None 0
        "[''user_lat'' \<mapsto> ''abc'']" "[mk_garage ''A'' 3 100 45]"]
  show ?thesis by blast
qed

lemma py_round_int: "py_round (of_int k) = k"
  by (simp add: py_round_def Let_def)

lemma round2_int: "round2 (of_int k) = of_int k"
proof -
  have "real_of_int k * 100 = of_int (k * 100)" by simp
  then have "py_round (real_of_int k * 100) = k * 100" by (simp only: py_round_int)
  then show ?thesis by (simp add: round2_def)
qed

text \<open>
  The claim as stated fails: a request with a negative duration is served, and its
  recommendation is recorded in the ledger.
\<close>

theorem negative_duration_counterexample:
  "handle_parking_request (\<lambda>s. None) (mk_state [mk_garage ''A'' 3 100 45] [] False) ''s1'' None
     [''user_lat'' \<mapsto> PyFloat 0, ''user_lng'' \<mapsto> PyFloat 0, ''dest_lat'' \<mapsto> PyFloat 0,
      ''dest_lng'' \<mapsto> PyFloat 0, ''duration'' \<mapsto> PyInt (- 2)] 0
   = Returns
       \<lparr>parking_spots = [mk_garage ''A'' 3 100 45],
        user_recommendations =
          [(''s1'', \<lparr>r_username = None, r_garage_name = ''A'', r_timestamp = 0,
                    r_user_lat = 0, r_user_lng = 0, r_dest_lat = 0, r_dest_lng = 0,
                    r_duration = - 2, r_walk_distance = 0\<rparr>)],
        users_db = Map.empty, parking_lock = False,
        emitted = [(''s1'', Recommendation_note (mk_garage ''A'' 3 100 45) (- 6) 0 0 [])]\<rparr>"
proof -
  have r: "round2 (- 6) = - 6" using round2_int [of "- 6"] by simp
  show ?thesis
    by (simp add: handle_parking_request_def parse_request_def py_float_def dict_get_def
          find_best_garage_def find_top_garages_def scored_garages_def score_at_origin
          price_weight_for_def py_slice_to_def emit_def mk_state_def r Let_def)
qed

subsection \<open>Default duration\<close>










lemma round2_numeral [simp]: "round2 (numeral n) = numeral n" "round2 1 = 1" "round2 0 = 0"
  using round2_int [of "numeral n"] round2_int [of 1] round2_int [of 0] by simp_all


subsection \<open>Throttle of the navigation loop\<close>

lemma far_garage_sel [simp]:
  "name (far_garage nm p a) = nm" "lat (far_garage nm p a) = 0" "lng (far_garage nm p a) = 180"
  "price_per_hour (far_garage nm p a) = p" "available_spots (far_garage nm p a) = a"
  by (simp_all add: far_garage_def mk_garage_def)












subsection \<open>Dispatcher\<close>

lemma send_reroute_notification_locked:
  "parking_lock st \<Longrightarrow> send_reroute_notification st sid old_rec reason now = Blocks"
  by (simp add: send_reroute_notification_def find_best_garage_def Let_def)

lemma check_loop_live:
  "check_loop entries g old now st = check_loop (live_for g now entries) g old now st"
proof (induction entries arbitrary: st)
  case Nil
  then show ?case by (simp add: live_for_def)
next
  case (Cons entry entries)
  obtain sid r where entry: "entry = (sid, r)" by (cases entry) auto
  have IH: "\<And>st. check_loop entries g old now st
                   = check_loop (live_for g now entries) g old now st"
    by (rule Cons.IH)
  show ?case
  proof (cases "now - r_timestamp r \<le> 300 \<and> r_garage_name r = name g")
    case True
    then have "live_for g now ((sid, r) # entries) = (sid, r) # live_for g now entries"
      by (simp add: live_for_def)
    then show ?thesis using True IH unfolding entry by (simp split: outcome.splits)
  next
    case False
    then have "live_for g now (entry # entries) = live_for g now entries"
      by (auto simp: live_for_def entry)
    moreover from False have "check_loop (entry # entries) g old now st
                                = check_loop entries g old now st"
      by (auto simp: entry)
    ultimately show ?thesis using IH by simp
  qed
qed

lemma check_loop_not_full:
  assumes "available_spots g \<noteq> 0"
  shows "check_loop entries g old now st
           = Returns (if available_spots g < 5 \<and> old \<ge> 5
                      then st\<lparr>emitted := emitted st
                             @ map (\<lambda>(sid, r). (sid, Warning_note (name g) (available_spots g)))
                                 (live_for g now entries)\<rparr>
                      else st)"
proof (induction entries arbitrary: st)
  case Nil
  then show ?case by (simp add: live_for_def)
next
  case (Cons entry entries)
  obtain sid r where entry: "entry = (sid, r)" by (cases entry) auto
  show ?case
  proof (cases "now - r_timestamp r \<le> 300 \<and> r_garage_name r = name g")
    case True
    then have l: "live_for g now ((sid, r) # entries) = (sid, r) # live_for g now entries"
      by (simp add: live_for_def)
    show ?thesis
      using True assms unfolding entry
      by (simp add: l Cons.IH send_low_availability_warning_def emit_def)
  next
    case False
    then have l: "live_for g now (entry # entries) = live_for g now entries"
      by (auto simp: live_for_def entry)
    from False have "check_loop (entry # entries) g old now st
                       = check_loop entries g old now st"
      by (auto simp: entry)
    then show ?thesis by (simp add: l Cons.IH)
  qed
qed

lemma check_loop_full_locked:
  assumes "available_spots g = 0" and "parking_lock st" and "live_for g now entries \<noteq> []"
  shows "check_loop entries g old now st = Blocks"
proof -
  obtain sid r rest where l: "live_for g now entries = (sid, r) # rest"
    using assms(3) by (cases "live_for g now entries") auto
  then have "(sid, r) \<in> set (live_for g now entries)" by simp
  then have "now - r_timestamp r \<le> 300 \<and> r_garage_name r = name g"
    by (auto simp: live_for_def)
  then have "check_loop ((sid, r) # rest) g old now st = Blocks"
    using assms(1,2) by (simp add: send_reroute_notification_locked)
  then show ?thesis using check_loop_live [of entries g old now st] l by simp
qed

lemma find_best_garage_returns:
  "\<not> parking_lock st \<Longrightarrow> \<exists>res. find_best_garage st ul ug dl dg username = Returns res"
  by (simp add: find_best_garage_def Let_def split: prod.splits)

lemma send_reroute_notification_unlocked:
  assumes "\<not> parking_lock st"
  shows "\<exists>new_garage new_drive new_walk.
           find_best_garage st (r_user_lat old_rec) (r_user_lng old_rec) (r_dest_lat old_rec)
             (r_dest_lng old_rec) (r_username old_rec) = Returns (new_garage, new_drive, new_walk)
           \<and> send_reroute_notification st sid old_rec reason now
               = (case new_garage of
                    None \<Rightarrow> Returns (emit st sid
                      (Error_note ''All parking is currently full. Searching for alternatives...''))
                  | Some ng \<Rightarrow>
                      (case find (\<lambda>g. name g = r_garage_name old_rec) (parking_spots st) of
                         None \<Rightarrow> Returns st
                       | Some old_garage \<Rightarrow>
                           (case map_of (user_recommendations st) sid of
                              None \<Rightarrow> Raises KeyError
                            | Some entry \<Rightarrow>
                                Returns ((emit st sid
                                   (Reroute_note (r_garage_name old_rec) reason ng
                                      (round2 (price_per_hour ng * r_duration old_rec))
                                      new_drive new_walk))
                                   \<lparr>user_recommendations :=
                                      dict_set (user_recommendations st) sid
                                        (entry\<lparr>r_garage_name := name ng, r_timestamp := now,
                                               r_walk_distance := new_walk\<rparr>)\<rparr>))))"
proof -
  obtain res where f: "find_best_garage st (r_user_lat old_rec) (r_user_lng old_rec)
      (r_dest_lat old_rec) (r_dest_lng old_rec) (r_username old_rec) = Returns res"
    using find_best_garage_returns [OF assms] by blast
  obtain ng dr wk where res: "res = (ng, dr, wk)" by (cases res) auto
  show ?thesis
    using f res
    by (auto simp: send_reroute_notification_def Let_def split: option.splits)
qed

text \<open>
  Claim C3, at a failing input. Garage A, recommended to session s1 ten time units ago,
  loses its last free place in a round of \<open>simulate_spots\<close>. The round holds
  \<open>parking_lock\<close> while it calls \<open>check_user_recommendations\<close>, and the re-route
  acquires the same lock in \<open>find_best_garage\<close>: the round never returns and nothing is
  sent. The warning, which takes no lock, is sent when A falls from 5 to 4.
\<close>

theorem full_reroute_blocks:
  "simulate_spots_tick
     (mk_state [mk_garage ''A'' 3 100 1, mk_garage ''B'' 2 150 80] [(''s1'', mk_rec ''A'' 0)] False)
     (\<lambda>i. if i = 0 then - 1 else 0) 10
   = Blocks
   \<and> simulate_spots_tick
     (mk_state [mk_garage ''A'' 3 100 5, mk_garage ''B'' 2 150 80] [(''s1'', mk_rec ''A'' 0)] False)
     (\<lambda>i. if i = 0 then - 1 else 0) 10
   = Returns
       \<lparr>parking_spots = [mk_garage ''A'' 3 100 4, mk_garage ''B'' 2 150 80],
        user_recommendations = [(''s1'', mk_rec ''A'' 0)],
        users_db = Map.empty, parking_lock = False,
        emitted = [(''s1'', Warning_note ''A'' 4)]\<rparr>"
  by (simp add: simulate_spots_tick_def check_user_recommendations_def adjust_available_def
        send_reroute_notification_def find_best_garage_def send_low_availability_warning_def
        emit_def mk_state_def mk_garage_def mk_rec_def Let_def)

text \<open>
  Claim C4, at a failing input. With the lock held, as it is whenever the dispatcher runs,
  \<open>send_reroute_notification\<close> stops at the recomputation of the best location. With the
  lock free the same call re-routes session s1 to garage B and updates the entry of the
  ledger, and with every garage full it sends the error and leaves the ledger as it is.
\<close>

theorem reroute_recomputation_blocks:
  "check_user_recommendations
     (mk_state [mk_garage ''A'' 3 100 0, mk_garage ''B'' 2 150 80] [(''s1'', mk_rec ''A'' 0)] True)
     (mk_garage ''A'' 3 100 0) 1 10
   = Blocks
   \<and> send_reroute_notification
     (mk_state [mk_garage ''A'' 3 100 0, mk_garage ''B'' 2 150 80] [(''s1'', mk_rec ''A'' 0)] True)
     ''s1'' (mk_rec ''A'' 0) ''full'' 10
   = Blocks
   \<and> send_reroute_notification
     (mk_state [mk_garage ''A'' 3 100 0, mk_garage ''B'' 2 150 80] [(''s1'', mk_rec ''A'' 0)] False)
     ''s1'' (mk_rec ''A'' 0) ''full'' 10
   = Returns
       \<lparr>parking_spots = [mk_garage ''A'' 3 100 0, mk_garage ''B'' 2 150 80],
        user_recommendations = [(''s1'', mk_rec ''B'' 10)],
        users_db = Map.empty, parking_lock = False,
        emitted = [(''s1'', Reroute_note ''A'' ''full'' (mk_garage ''B'' 2 150 80) 2 0 0)]\<rparr>
   \<and> send_reroute_notification
     (mk_state [mk_garage ''A'' 3 100 0] [(''s1'', mk_rec ''A'' 0)] False)
     ''s1'' (mk_rec ''A'' 0) ''full'' 10
   = Returns
       \<lparr>parking_spots = [mk_garage ''A'' 3 100 0],
        user_recommendations = [(''s1'', mk_rec ''A'' 0)],
        users_db = Map.empty, parking_lock = False,
        emitted = [(''s1'', Error_note
          ''All parking is currently full. Searching for alternatives...'')]\<rparr>"
  by (simp add: check_user_recommendations_def send_reroute_notification_def
        find_best_garage_def score_at_origin price_weight_for_def emit_def mk_state_def
        mk_rec_def Let_def)

subsection \<open>Scoring of the recommendations\<close>

lemma price_weight_for_spec:
  "price_weight_for db username
     = (case spec_preference db username of None \<Rightarrow> 0.3 | Some w \<Rightarrow> w)"
  by (simp add: price_weight_for_def spec_preference_def split: option.splits)

lemma score_parking_weight:
  "score_parking g ul ug dl dg (Some (price_weight_for db username))
     = spec_score g (ul, ug) (dl, dg) (spec_preference db username)"
  by (simp add: score_parking_def spec_score_def Let_def mult.commute price_weight_for_spec
           split: option.splits)

lemma find_top_garages_scores:
  assumes "find_top_garages st ul ug dl dg username n = Returns r" and "e \<in> set r"
  shows "(fst e, snd (snd e))
           = spec_score (fst (snd e)) (ul, ug) (dl, dg) (spec_preference (users_db st) username)"
proof -
  define av where "av = filter (\<lambda>g. 0 < available_spots g) (parking_spots st)"
  define pw where "pw = price_weight_for (users_db st) username"
  from assms have "e \<in> set (py_slice_to (sort_key fst (scored_garages av ul ug dl dg pw)) n)"
    by (auto simp: find_top_garages_def Let_def av_def [symmetric] pw_def [symmetric]
             split: if_splits)
  then have "e \<in> set (scored_garages av ul ug dl dg pw)"
    using set_py_slice by fastforce
  then obtain g where "e = (case score_parking g ul ug dl dg (Some pw) of
                              (score, drive_dist, walk_dist) \<Rightarrow> (score, g, drive_dist, walk_dist))"
    by (auto simp: scored_garages_def)
  then have "(fst e, snd (snd e)) = score_parking (fst (snd e)) ul ug dl dg (Some pw)"
    by (auto split: prod.splits)
  then show ?thesis by (simp add: pw_def score_parking_weight)
qed

text \<open>
  Claim C1, amended. The realtime module's \<open>score_parking\<close> returns the triple of the
  specification: score, driving distance from the user's position, walking distance to
  the destination, with the walking distance counted twice, the penalty 1.5 up to 20
  available places and 1.0 above, and the weight of the price taken from the
  preference, 0.3 when there is none. The weight the recommendation passes is the
  preference stored for the requester, and every entry of \<open>find_top_garages\<close> carries
  the score and the distances of the specification for that preference. The second
  module's \<open>score_parking\<close> returns one number: the walking distance weighted by
  \<open>alpha\<close>, 0.5 when it is left out, plus the hourly price times 100 weighted by
  \<open>1 - alpha\<close>, times the same penalty.
\<close>

theorem score_parking_spec:
  "score_parking g user_lat user_lng dest_lat dest_lng preference
     = spec_score g (user_lat, user_lng) (dest_lat, dest_lng) preference
   \<and> price_weight_for db requester
       = (case spec_preference db requester of None \<Rightarrow> 0.3 | Some w \<Rightarrow> w)
   \<and> (\<forall>r. find_top_garages st user_lat user_lng dest_lat dest_lng requester n = Returns r
        \<longrightarrow> (\<forall>e \<in> set r.
               (fst e, snd (snd e))
                 = spec_score (fst (snd e)) (user_lat, user_lng) (dest_lat, dest_lng)
                     (spec_preference (users_db st) requester)))
   \<and> score_parking_v2 p dlat dlng alpha
       = ((case alpha of None \<Rightarrow> 0.5 | Some a \<Rightarrow> a)
            * snd (snd (spec_score p (ulat, ulng) (dlat, dlng) pref))
          + (1 - (case alpha of None \<Rightarrow> 0.5 | Some a \<Rightarrow> a)) * price_per_hour p * 100)
         * (if available_spots p \<le> 20 then 1.5 else 1.0)"
proof (intro conjI allI impI ballI)
  show "score_parking_v2 p dlat dlng alpha
       = ((case alpha of None \<Rightarrow> 0.5 | Some a \<Rightarrow> a)
            * snd (snd (spec_score p (ulat, ulng) (dlat, dlng) pref))
          + (1 - (case alpha of None \<Rightarrow> 0.5 | Some a \<Rightarrow> a)) * price_per_hour p * 100)
         * (if available_spots p \<le> 20 then 1.5 else 1.0)"
    by (simp add: score_parking_v2_def spec_score_def Let_def)
  show "score_parking g user_lat user_lng dest_lat dest_lng preference
     = spec_score g (user_lat, user_lng) (dest_lat, dest_lng) preference"
    by (simp add: score_parking_def spec_score_def Let_def mult.commute)
  show "price_weight_for db requester
       = (case spec_preference db requester of None \<Rightarrow> 0.3 | Some w \<Rightarrow> w)"
    by (rule price_weight_for_spec)
next
  fix r e
  assume "find_top_garages st user_lat user_lng dest_lat dest_lng requester n = Returns r"
    and "e \<in> set r"
  then show "(fst e, snd (snd e))
                 = spec_score (fst (snd e)) (user_lat, user_lng) (dest_lat, dest_lng)
                     (spec_preference (users_db st) requester)"
    by (rule find_top_garages_scores)
qed

theorem score_parking_spec_witness:
  "find_top_garages
     ((mk_state [mk_garage ''A'' 3 100 0, mk_garage ''B'' 2 150 80] [] False)
        \<lparr>users_db := [''alice'' \<mapsto> \<lparr>password_hash = ''h'', user_price_weight = Some (1 / 2)\<rparr>]\<rparr>)
     0 0 0 0 (Some ''alice'') 3
   = Returns [(100, mk_garage ''B'' 2 150 80, 0, 0)]
   \<and> spec_score (mk_garage ''B'' 2 150 80) (0, 0) (0, 0) (Some (1 / 2)) = (100, 0, 0)
   \<and> spec_preference [''alice'' \<mapsto> \<lparr>password_hash = ''h'', user_price_weight = Some (1 / 2)\<rparr>]
        (Some ''alice'') = Some (1 / 2)"
  using score_parking_spec
    [of "mk_garage ''B'' 2 150 80" 0 0 0 0 "Some (1 / 2)"
        "[''alice'' \<mapsto> \<lparr>password_hash = ''h'', user_price_weight = Some (1 / 2)\<rparr>]"
        "Some ''alice''"
        "(mk_state [mk_garage ''A'' 3 100 0, mk_garage ''B'' 2 150 80] [] False)
           \<lparr>users_db := [''alice'' \<mapsto> \<lparr>password_hash = ''h'', user_price_weight = Some (1 / 2)\<rparr>]\<rparr>"
        3]
  by (simp add: find_top_garages_def scored_garages_def score_at_origin price_weight_for_def
        py_slice_to_def spec_score_def spec_preference_def haversine_same Let_def)

text \<open>
  The claim as stated fails for the second module: for a garage at the destination with
  price 2 and 80 free places, its \<open>score_parking\<close> gives 100, and the score of the
  specification with the default weight is 60.
\<close>

theorem score_parking_v2_counterexample:
  "score_parking_v2 (mk_garage ''B'' 2 150 80) 0 0 None = 100
   \<and> spec_score (mk_garage ''B'' 2 150 80) (0, 0) (0, 0) None = (60, 0, 0)
   \<and> score_parking_v2 (mk_garage ''B'' 2 150 80) 0 0 None
       \<noteq> fst (spec_score (mk_garage ''B'' 2 150 80) (0, 0) (0, 0) None)"
  by (simp add: score_parking_v2_def spec_score_def haversine_same Let_def)

subsection \<open>Throttle: when a notification is produced\<close>








end
